theory Spec2Isabelle
  imports Main
begin

section \<open>Python values\<close>

text \<open>
  The bot (\<^verbatim>\<open>telegram_bot/bot.py\<close>) moves JSON documents around as Python values:
  the provider responses decoded by \<^verbatim>\<open>resp.json()\<close>, the analysis decoded by
  \<^verbatim>\<open>json.loads\<close>.  A value of type \<open>json\<close> is such a Python value; \<open>JNull\<close> is
  Python's \<^verbatim>\<open>None\<close>.  An object holds the items of the dict in insertion order, one
  per key.  A \<open>char\<close> stands for one character of a Python \<^verbatim>\<open>str\<close>.
\<close>

datatype pyfloat = Finite int int | Infinite bool | NaN

datatype json =
    JNull
  | JBool bool
  | JInt int
  | JFloat pyfloat
  | JStr string
  | JArr "json list"
  | JObj "(string \<times> json) list"

text \<open>The exceptions the handlers can meet; the last five come from the environment.\<close>

datatype exn =
    AttributeError
  | TypeError
  | IndexError
  | KeyError
  | OverflowError
  | InterfaceError
  | JSONDecodeError
  | ClientError
  | OSError
  | TelegramError
  | OperationalError

text \<open>Sequencing of steps that may raise: the first exception ends the computation.\<close>

definition bindE :: "exn + 'a \<Rightarrow> ('a \<Rightarrow> exn + 'b) \<Rightarrow> exn + 'b" where
  "bindE m f = (case m of Inl e \<Rightarrow> Inl e | Inr x \<Rightarrow> f x)"

fun foldE :: "('a \<Rightarrow> 'b \<Rightarrow> exn + 'b) \<Rightarrow> 'a list \<Rightarrow> 'b \<Rightarrow> exn + 'b" where
  "foldE f [] acc = Inr acc"
| "foldE f (x # xs) acc = bindE (f x acc) (foldE f xs)"

fun mapE :: "('a \<Rightarrow> exn + 'b) \<Rightarrow> 'a list \<Rightarrow> exn + 'b list" where
  "mapE f [] = Inr []"
| "mapE f (x # xs) = bindE (f x) (\<lambda>y. bindE (mapE f xs) (\<lambda>ys. Inr (y # ys)))"

text \<open>Truth value of a Python value, as \<^verbatim>\<open>not x\<close> and \<^verbatim>\<open>x or y\<close> test it.\<close>

fun truthy :: "json \<Rightarrow> bool" where
  "truthy JNull = False"
| "truthy (JBool b) = b"
| "truthy (JInt n) = (n \<noteq> 0)"
| "truthy (JFloat f) = (case f of Finite m e \<Rightarrow> m \<noteq> 0 | Infinite s \<Rightarrow> True | NaN \<Rightarrow> True)"
| "truthy (JStr s) = (s \<noteq> [])"
| "truthy (JArr xs) = (xs \<noteq> [])"
| "truthy (JObj kvs) = (kvs \<noteq> [])"

text \<open>\<^verbatim>\<open>x.get(k, d)\<close>: only a dict has the method; a key that is present wins over the
  default even when its value is \<^verbatim>\<open>None\<close>.\<close>

fun py_get :: "json \<Rightarrow> string \<Rightarrow> json \<Rightarrow> exn + json" where
  "py_get (JObj kvs) k d = Inr (case map_of kvs k of None \<Rightarrow> d | Some v \<Rightarrow> v)"
| "py_get JNull k d = Inl AttributeError"
| "py_get (JBool b) k d = Inl AttributeError"
| "py_get (JInt n) k d = Inl AttributeError"
| "py_get (JFloat f) k d = Inl AttributeError"
| "py_get (JStr s) k d = Inl AttributeError"
| "py_get (JArr xs) k d = Inl AttributeError"

text \<open>\<^verbatim>\<open>x[0]\<close>.\<close>

fun py_index0 :: "json \<Rightarrow> exn + json" where
  "py_index0 (JArr []) = Inl IndexError"
| "py_index0 (JArr (x # xs)) = Inr x"
| "py_index0 (JStr []) = Inl IndexError"
| "py_index0 (JStr (c # s)) = Inr (JStr [c])"
| "py_index0 (JObj kvs) = Inl KeyError"
| "py_index0 JNull = Inl TypeError"
| "py_index0 (JBool b) = Inl TypeError"
| "py_index0 (JInt n) = Inl TypeError"
| "py_index0 (JFloat f) = Inl TypeError"

text \<open>\<^verbatim>\<open>x[:3]\<close>.  A dict raises here (which exception depends on the version of
  Python); the model names it \<open>TypeError\<close>.\<close>

fun py_slice3 :: "json \<Rightarrow> exn + json" where
  "py_slice3 (JArr xs) = Inr (JArr (take 3 xs))"
| "py_slice3 (JStr s) = Inr (JStr (take 3 s))"
| "py_slice3 (JObj kvs) = Inl TypeError"
| "py_slice3 JNull = Inl TypeError"
| "py_slice3 (JBool b) = Inl TypeError"
| "py_slice3 (JInt n) = Inl TypeError"
| "py_slice3 (JFloat f) = Inl TypeError"

text \<open>The items a \<^verbatim>\<open>for\<close> loop sees: the elements of a list, the characters of a
  string, the keys of a dict; anything else is not iterable.\<close>

fun py_iter :: "json \<Rightarrow> exn + json list" where
  "py_iter (JArr xs) = Inr xs"
| "py_iter (JStr s) = Inr (map (\<lambda>c. JStr [c]) s)"
| "py_iter (JObj kvs) = Inr (map (\<lambda>kv. JStr (fst kv)) kvs)"
| "py_iter JNull = Inl TypeError"
| "py_iter (JBool b) = Inl TypeError"
| "py_iter (JInt n) = Inl TypeError"
| "py_iter (JFloat f) = Inl TypeError"

text \<open>\<^verbatim>\<open>sep.join(x)\<close>: every item must be a string.\<close>

fun join_strs :: "string \<Rightarrow> string list \<Rightarrow> string" where
  "join_strs sep [] = []"
| "join_strs sep [s] = s"
| "join_strs sep (s # t # ss) = s @ sep @ join_strs sep (t # ss)"

fun as_str :: "json \<Rightarrow> exn + string" where
  "as_str (JStr s) = Inr s"
| "as_str JNull = Inl TypeError"
| "as_str (JBool b) = Inl TypeError"
| "as_str (JInt n) = Inl TypeError"
| "as_str (JFloat f) = Inl TypeError"
| "as_str (JArr xs) = Inl TypeError"
| "as_str (JObj kvs) = Inl TypeError"

definition py_join :: "string \<Rightarrow> json \<Rightarrow> exn + string" where
  "py_join sep x = bindE (py_iter x) (\<lambda>items. bindE (mapE as_str items) (\<lambda>ss. Inr (join_strs sep ss)))"

section \<open>The regular expression of the extraction\<close>

text \<open>
  \<^verbatim>\<open>re.search(r'\{[\s\S]*\}', content)\<close>.  The pattern is a literal brace, a greedy run
  of arbitrary characters, a literal brace.  \<open>match_here\<close> is the backtracking matcher at
  one position (the greedy run first takes as much as it can and gives back one
  character at a time); \<open>re_search\<close> tries the positions from the left and returns the
  text of the first match, the match's \<^verbatim>\<open>group()\<close>.
\<close>

datatype re_atom = Lit char | AnyStar

fun match_here :: "re_atom list \<Rightarrow> string \<Rightarrow> string option" where
  "match_here [] s = Some []"
| "match_here (Lit c # p) [] = None"
| "match_here (Lit c # p) (x # s) =
     (if x = c then map_option (Cons x) (match_here p s) else None)"
| "match_here (AnyStar # p) [] = match_here p []"
| "match_here (AnyStar # p) (x # s) =
     (case match_here (AnyStar # p) s of
        Some m \<Rightarrow> Some (x # m)
      | None \<Rightarrow> match_here p (x # s))"

fun re_search :: "re_atom list \<Rightarrow> string \<Rightarrow> string option" where
  "re_search p [] = match_here p []"
| "re_search p (x # s) =
     (case match_here p (x # s) of Some m \<Rightarrow> Some m | None \<Rightarrow> re_search p s)"

definition json_pattern :: "re_atom list" where
  "json_pattern = [Lit (CHR ''{''), AnyStar, Lit (CHR ''}'')]"

text \<open>The pattern applied to a Python value: anything but a string is a \<^verbatim>\<open>TypeError\<close>.\<close>

fun json_match :: "json \<Rightarrow> exn + string option" where
  "json_match (JStr s) = Inr (re_search json_pattern s)"
| "json_match JNull = Inl TypeError"
| "json_match (JBool b) = Inl TypeError"
| "json_match (JInt n) = Inl TypeError"
| "json_match (JFloat f) = Inl TypeError"
| "json_match (JArr xs) = Inl TypeError"
| "json_match (JObj kvs) = Inl TypeError"

section \<open>Sessions, history rows, messages\<close>

text \<open>
  \<^verbatim>\<open>context.user_data\<close> is the dict the bot keeps for one user.  The source uses three
  keys, each written with a single kind of value; a field is \<open>None\<close> while its key is not
  in the dict.
\<close>

record user_data =
  last_composition :: "string option"
  last_photo_path :: "string option"
  last_analysis :: "json option"

definition empty_user_data :: user_data where
  "empty_user_data = \<lparr>last_composition = None, last_photo_path = None, last_analysis = None\<rparr>"

record tg_user =
  uid :: int
  uname :: "string option"
  first_name :: string

text \<open>
  What a column of type \<^verbatim>\<open>TEXT\<close> of the table \<^verbatim>\<open>analyses\<close> holds: \<^verbatim>\<open>NULL\<close>, a text, or
  the text form SQLite gives a number when it stores it in such a column (kept as the
  number it is the text of).
\<close>

datatype sqlval = SqlNull | SqlText string | SqlIntAsText int | SqlRealAsText pyfloat

record row =
  row_id :: nat
  user_id :: int
  username :: string
  product_name :: sqlval
  composition :: string
  verdict :: sqlval
  risk_level :: sqlval
  json_result :: string
  created_at :: nat

text \<open>The table with the counter of \<^verbatim>\<open>AUTOINCREMENT\<close>; rows in insertion order.  The
  time of creation is counted in seconds, the resolution of \<^verbatim>\<open>CURRENT_TIMESTAMP\<close>.\<close>

record database =
  analyses :: "row list"
  seq :: nat

text \<open>Binding a Python value to a parameter of the \<^verbatim>\<open>INSERT\<close> for a column of type
  \<^verbatim>\<open>TEXT\<close>: \<^verbatim>\<open>None\<close>, integers of 64 bits (a \<^verbatim>\<open>bool\<close> is an integer), floats (a NaN
  is stored as \<^verbatim>\<open>NULL\<close>) and strings are supported, lists and dicts are not (the model
  names the exception of \<^verbatim>\<open>sqlite3\<close> for them \<open>InterfaceError\<close>).\<close>

fun sqlite_bind :: "json \<Rightarrow> exn + sqlval" where
  "sqlite_bind JNull = Inr SqlNull"
| "sqlite_bind (JBool b) = Inr (SqlIntAsText (if b then 1 else 0))"
| "sqlite_bind (JInt n) =
     (if - (2 ^ 63) \<le> n \<and> n < 2 ^ 63 then Inr (SqlIntAsText n) else Inl OverflowError)"
| "sqlite_bind (JFloat f) = Inr (case f of NaN \<Rightarrow> SqlNull | _ \<Rightarrow> SqlRealAsText f)"
| "sqlite_bind (JStr s) = Inr (SqlText s)"
| "sqlite_bind (JArr xs) = Inl InterfaceError"
| "sqlite_bind (JObj kvs) = Inl InterfaceError"

datatype risk_emoji = CheckMark | WarningSign | RedCircle | QuestionMark

text \<open>\<^verbatim>\<open>{'safe': .., 'moderate': .., 'high': ..}.get(x, question mark)\<close>: the key must be
  hashable; a list or a dict is not.\<close>

definition emoji_of_string :: "string \<Rightarrow> risk_emoji" where
  "emoji_of_string s =
     (if s = ''safe'' then CheckMark
      else if s = ''moderate'' then WarningSign
      else if s = ''high'' then RedCircle
      else QuestionMark)"

fun risk_emoji_of :: "json \<Rightarrow> exn + risk_emoji" where
  "risk_emoji_of (JStr s) = Inr (emoji_of_string s)"
| "risk_emoji_of JNull = Inr QuestionMark"
| "risk_emoji_of (JBool b) = Inr QuestionMark"
| "risk_emoji_of (JInt n) = Inr QuestionMark"
| "risk_emoji_of (JFloat f) = Inr QuestionMark"
| "risk_emoji_of (JArr xs) = Inl TypeError"
| "risk_emoji_of (JObj kvs) = Inl TypeError"

fun risk_emoji_of_sql :: "sqlval \<Rightarrow> risk_emoji" where
  "risk_emoji_of_sql (SqlText s) = emoji_of_string s"
| "risk_emoji_of_sql SqlNull = QuestionMark"
| "risk_emoji_of_sql (SqlIntAsText n) = QuestionMark"
| "risk_emoji_of_sql (SqlRealAsText f) = QuestionMark"

text \<open>
  The Russian literals of the source that are mixed with data are written in Latin
  letters here: the default product name and the text shown for an empty join.
\<close>

definition default_product :: json where
  "default_product = JStr ''Produkt''"

definition not_found_text :: string where
  "not_found_text = ''ne naideny''"

text \<open>
  One constructor per message template of the source, carrying the values the template
  interpolates.
\<close>

datatype message =
    Welcome string
  | Help "string list"
  | Recognizing
  | RecognitionFailed
  | Preview string
  | PhotoError exn
  | TextNotFound
  | Analyzing
  | AnalysisError
  | AnalysisReport risk_emoji json json string string "json list" json
  | GeneratingRecipes
  | RecipesFailed
  | RecipesList "(json \<times> json \<times> json) list"
  | AnalysisBrief risk_emoji json json
  | Cancelled
  | HistoryEmpty
  | HistoryList "(risk_emoji \<times> sqlval \<times> sqlval \<times> nat) list"

datatype prompt = RecipesPrompt "string option" | AnalyzePrompt "string option"

text \<open>What a handler does to the outside, in order.  A message goes out with the
  \<^verbatim>\<open>callback_data\<close> of its inline buttons.\<close>

datatype effect =
    AnswerQuery
  | SendTyping
  | Reply message "string list"
  | Edit message "string list"
  | OcrPost string
  | GeminiPost prompt
  | LogError exn
  | RemoveFile string

datatype outcome = Returned | Raised exn

section \<open>The environment of one event\<close>

text \<open>
  What the outside answers while one event is handled: the download of the photo, the
  file system, the two providers (\<^verbatim>\<open>session.post\<close> raises, or gives a status together
  with what \<^verbatim>\<open>resp.json()\<close> gives), the storage engine, the clock of the database, and the
  two functions of the \<^verbatim>\<open>json\<close> library.  Calls into the chat transport
  (\<^verbatim>\<open>reply_text\<close>, \<^verbatim>\<open>edit_message_text\<close>, \<^verbatim>\<open>answer\<close>, \<^verbatim>\<open>send_action\<close>) are taken to
  succeed.
\<close>

record env =
  photo_path :: string
  download_fault :: "exn option"
  open_fault :: "exn option"
  ocr_http :: "exn + nat \<times> (exn + json)"
  remove_fault :: "exn option"
  gemini_http :: "exn + nat \<times> (exn + json)"
  json_loads :: "string \<Rightarrow> exn + json"
  json_dumps :: "json \<Rightarrow> string"
  db_fault :: "exn option"
  now :: nat

section \<open>Recognition gateway: \<^verbatim>\<open>ocr_recognize\<close>\<close>

text \<open>The five nested loops over the provider's answer, innermost first.\<close>

definition ocr_symbol :: "json \<Rightarrow> string \<Rightarrow> exn + string" where
  "ocr_symbol symbol text =
     bindE (py_get symbol ''text'' (JStr [])) (\<lambda>t.
     bindE (as_str t) (\<lambda>s. Inr (text @ s)))"

definition ocr_word :: "json \<Rightarrow> string \<Rightarrow> exn + string" where
  "ocr_word word text =
     bindE (py_get word ''words'' (JArr [])) (\<lambda>v.
     bindE (py_iter v) (\<lambda>symbols. foldE ocr_symbol symbols text))"

definition ocr_line :: "json \<Rightarrow> string \<Rightarrow> exn + string" where
  "ocr_line line text =
     bindE (py_get line ''lines'' (JArr [])) (\<lambda>v.
     bindE (py_iter v) (\<lambda>words. foldE ocr_word words text))"

definition ocr_block :: "json \<Rightarrow> string \<Rightarrow> exn + string" where
  "ocr_block block text =
     bindE (py_get block ''blocks'' (JArr [])) (\<lambda>v.
     bindE (py_iter v) (\<lambda>lines. foldE ocr_line lines text))"

definition ocr_result_item :: "json \<Rightarrow> string \<Rightarrow> exn + string" where
  "ocr_result_item result_item text =
     bindE (py_get result_item ''textDetection'' (JObj [])) (\<lambda>td.
     bindE (py_get td ''pages'' (JArr [])) (\<lambda>v.
     bindE (py_iter v) (\<lambda>blocks. foldE ocr_block blocks text)))"

definition ocr_text :: "json \<Rightarrow> exn + string" where
  "ocr_text result =
     bindE (py_get result ''results'' (JArr [])) (\<lambda>v.
     bindE (py_iter v) (\<lambda>items. foldE ocr_result_item items []))"

text \<open>The body of the \<^verbatim>\<open>try\<close>: \<open>Inr None\<close> is falling out of it without a
  \<^verbatim>\<open>return\<close> (status other than 200).\<close>

definition ocr_try :: "env \<Rightarrow> exn + string option" where
  "ocr_try env =
     (case open_fault env of
        Some e \<Rightarrow> Inl e
      | None \<Rightarrow>
          (case ocr_http env of
             Inl e \<Rightarrow> Inl e
           | Inr (status, body) \<Rightarrow>
               bindE body (\<lambda>result.
                 if status = 200 then bindE (ocr_text result) (\<lambda>text. Inr (Some text))
                 else Inr None)))"

text \<open>The whole function: the result (\<open>Inl\<close> would be an exception leaving it) and its
  effects.\<close>

definition ocr_recognize :: "env \<Rightarrow> string \<Rightarrow> (exn + string option) \<times> effect list" where
  "ocr_recognize env path =
     (case ocr_try env of
        Inl e \<Rightarrow>
          (Inr None, (if open_fault env = None then [OcrPost path] else []) @ [LogError e])
      | Inr r \<Rightarrow> (Inr r, [OcrPost path]))"

section \<open>Analysis gateway: \<^verbatim>\<open>analyze_with_gemini\<close>\<close>

definition gemini_content :: "json \<Rightarrow> exn + json" where
  "gemini_content result =
     bindE (py_get result ''candidates'' (JArr [JObj []])) (\<lambda>cs.
     bindE (py_index0 cs) (\<lambda>c.
     bindE (py_get c ''content'' (JObj [])) (\<lambda>ct.
     bindE (py_get ct ''parts'' (JArr [JObj []])) (\<lambda>ps.
     bindE (py_index0 ps) (\<lambda>p.
     py_get p ''text'' (JStr []))))))"

text \<open>The extraction of the structured payload from the free-form text.\<close>

definition extract_json :: "(string \<Rightarrow> exn + json) \<Rightarrow> json \<Rightarrow> exn + json" where
  "extract_json loads content =
     bindE (json_match content) (\<lambda>m.
       case m of
         None \<Rightarrow> Inr JNull
       | Some g \<Rightarrow> loads g)"

definition gemini_try :: "env \<Rightarrow> exn + json" where
  "gemini_try env =
     (case gemini_http env of
        Inl e \<Rightarrow> Inl e
      | Inr (status, body) \<Rightarrow>
          if status = 200 then
            bindE body (\<lambda>result.
            bindE (gemini_content result) (\<lambda>content.
            extract_json (json_loads env) content))
          else Inr JNull)"

definition analyze_with_gemini ::
  "env \<Rightarrow> string option \<Rightarrow> string \<Rightarrow> (exn + json) \<times> effect list" where
  "analyze_with_gemini env text mode =
     (let prompt = (if mode = ''recipes'' then RecipesPrompt text else AnalyzePrompt text) in
      case gemini_try env of
        Inl e \<Rightarrow> (Inr JNull, [GeminiPost prompt, LogError e])
      | Inr r \<Rightarrow> (Inr r, [GeminiPost prompt]))"

section \<open>The handlers\<close>

subsection \<open>\<^verbatim>\<open>start\<close> and \<^verbatim>\<open>help_command\<close>\<close>

definition start :: "tg_user \<Rightarrow> outcome \<times> effect list" where
  "start u = (Returned, [Reply (Welcome (first_name u)) []])"

text \<open>The commands the help text lists.\<close>

definition help_commands :: "string list" where
  "help_commands = [''start'', ''help'', ''history'', ''clear'']"

definition help_command :: "tg_user \<Rightarrow> outcome \<times> effect list" where
  "help_command u = (Returned, [Reply (Help help_commands) []])"

subsection \<open>\<^verbatim>\<open>handle_photo\<close>\<close>

definition preview_of :: "string \<Rightarrow> string" where
  "preview_of t = (if length t > 200 then take 200 t @ ''...'' else t)"

text \<open>The block under \<^verbatim>\<open>if not composition_text\<close>; an exception of \<^verbatim>\<open>os.remove\<close> is
  caught by the handler's \<^verbatim>\<open>except\<close> like any other.\<close>

definition photo_not_recognized ::
  "env \<Rightarrow> effect list \<Rightarrow> user_data \<Rightarrow> outcome \<times> effect list \<times> user_data" where
  "photo_not_recognized env effs ud =
     (case remove_fault env of
        None \<Rightarrow>
          (Returned, effs @ [Reply RecognitionFailed [], RemoveFile (photo_path env)], ud)
      | Some e \<Rightarrow>
          (Returned, effs @ [Reply RecognitionFailed [], LogError e, Reply (PhotoError e) []], ud))"

definition handle_photo ::
  "env \<Rightarrow> tg_user \<Rightarrow> user_data \<Rightarrow> outcome \<times> effect list \<times> user_data" where
  "handle_photo env u ud =
     (case download_fault env of
        Some e \<Rightarrow> (Returned, [SendTyping, LogError e, Reply (PhotoError e) []], ud)
      | None \<Rightarrow>
          (case ocr_recognize env (photo_path env) of
             (Inl e, effs) \<Rightarrow>
               (Returned,
                [SendTyping, Reply Recognizing []] @ effs @ [LogError e, Reply (PhotoError e) []],
                ud)
           | (Inr None, effs) \<Rightarrow>
               photo_not_recognized env ([SendTyping, Reply Recognizing []] @ effs) ud
           | (Inr (Some composition_text), effs) \<Rightarrow>
               if composition_text = [] then
                 photo_not_recognized env ([SendTyping, Reply Recognizing []] @ effs) ud
               else
                 (Returned,
                  [SendTyping, Reply Recognizing []] @ effs @
                  [Reply (Preview (preview_of composition_text)) [''analyze'', ''edit'', ''cancel'']],
                  ud\<lparr>last_composition := Some composition_text,
                     last_photo_path := Some (photo_path env)\<rparr>)))"

subsection \<open>\<^verbatim>\<open>button_callback\<close>, branch \<^verbatim>\<open>analyze\<close>\<close>

text \<open>The \<^verbatim>\<open>INSERT\<close>: the id comes from the counter, the time from the database's
  clock.\<close>

definition insert_row ::
  "database \<Rightarrow> nat \<Rightarrow> int \<Rightarrow> string \<Rightarrow> sqlval \<Rightarrow> string \<Rightarrow> sqlval \<Rightarrow> sqlval \<Rightarrow> string \<Rightarrow> database" where
  "insert_row db t u n p c v r j =
     (let i = Suc (fold max (map row_id (analyses db)) (seq db)) in
      \<lparr>analyses = analyses db @
         [\<lparr>row_id = i, user_id = u, username = n, product_name = p, composition = c,
           verdict = v, risk_level = r, json_result = j, created_at = t\<rparr>],
       seq = i\<rparr>)"

text \<open>\<^verbatim>\<open>query.from_user.username or 'unknown'\<close>.\<close>

definition username_or_unknown :: "tg_user \<Rightarrow> string" where
  "username_or_unknown u =
     (case uname u of None \<Rightarrow> ''unknown'' | Some n \<Rightarrow> if n = [] then ''unknown'' else n)"

text \<open>The block under \<^verbatim>\<open># Save to DB\<close>.  A failure of the storage engine
  (\<^verbatim>\<open>connect\<close>, \<^verbatim>\<open>execute\<close> or \<^verbatim>\<open>commit\<close> raising) leaves the table as it was.\<close>

definition save_analysis ::
  "env \<Rightarrow> tg_user \<Rightarrow> string \<Rightarrow> json \<Rightarrow> database \<Rightarrow> exn + database" where
  "save_analysis env u composition_text analysis db =
     (case db_fault env of
        Some e \<Rightarrow> Inl e
      | None \<Rightarrow>
          bindE (py_get analysis ''productName'' (JStr ''?'')) (\<lambda>pn.
          bindE (py_get analysis ''verdict'' (JStr ''?'')) (\<lambda>vd.
          bindE (py_get analysis ''riskLevel'' (JStr ''?'')) (\<lambda>rl.
          bindE (sqlite_bind pn) (\<lambda>p.
          bindE (sqlite_bind vd) (\<lambda>v.
          bindE (sqlite_bind rl) (\<lambda>r.
            Inr (insert_row db (now env) (uid u) (username_or_unknown u) p
                   (take 500 composition_text) v r (json_dumps env analysis)))))))))"

text \<open>The block under \<^verbatim>\<open># Format response\<close>.\<close>

definition or_not_found :: "string \<Rightarrow> string" where
  "or_not_found s = (if s = [] then not_found_text else s)"

definition format_analysis :: "json \<Rightarrow> exn + message" where
  "format_analysis analysis =
     bindE (py_get analysis ''riskLevel'' JNull) (\<lambda>rl.
     bindE (risk_emoji_of rl) (\<lambda>emoji.
     bindE (py_get analysis ''productName'' default_product) (\<lambda>pn.
     bindE (py_get analysis ''verdict'' (JStr ''?'')) (\<lambda>vd.
     bindE (py_get analysis ''highlights'' (JArr [])) (\<lambda>hl.
     bindE (py_join '', '' hl) (\<lambda>hs.
     bindE (py_get analysis ''allergens'' (JArr [])) (\<lambda>al.
     bindE (py_join '', '' al) (\<lambda>als.
     bindE (py_get analysis ''features'' (JArr [])) (\<lambda>ft.
     bindE (py_iter ft) (\<lambda>fs.
     bindE (py_get analysis ''advice'' (JStr ''?'')) (\<lambda>adv.
       Inr (AnalysisReport emoji pn vd (or_not_found hs) (or_not_found als) fs adv))))))))))))"

definition analyze_branch ::
  "env \<Rightarrow> tg_user \<Rightarrow> user_data \<Rightarrow> database \<Rightarrow> outcome \<times> effect list \<times> user_data \<times> database" where
  "analyze_branch env u ud db =
     (case last_composition ud of
        None \<Rightarrow> (Returned, [Edit TextNotFound []], ud, db)
      | Some composition_text \<Rightarrow>
          if composition_text = [] then (Returned, [Edit TextNotFound []], ud, db)
          else
            (case analyze_with_gemini env (Some composition_text) ''analyze'' of
               (Inl e, effs) \<Rightarrow> (Raised e, Edit Analyzing [] # effs, ud, db)
             | (Inr analysis, effs) \<Rightarrow>
                 if \<not> truthy analysis then
                   (Returned, Edit Analyzing [] # effs @ [Edit AnalysisError []], ud, db)
                 else
                   (case save_analysis env u composition_text analysis db of
                      Inl e \<Rightarrow> (Raised e, Edit Analyzing [] # effs, ud, db)
                    | Inr db' \<Rightarrow>
                        (case format_analysis analysis of
                           Inl e \<Rightarrow> (Raised e, Edit Analyzing [] # effs, ud, db')
                         | Inr response \<Rightarrow>
                             (Returned,
                              Edit Analyzing [] # effs @ [Edit response [''recipes'', ''cancel'']],
                              ud\<lparr>last_analysis := Some analysis\<rparr>, db')))))"

subsection \<open>\<^verbatim>\<open>button_callback\<close>, branch \<^verbatim>\<open>recipes\<close>\<close>

definition recipe_view :: "json \<Rightarrow> exn + json \<times> json \<times> json" where
  "recipe_view recipe =
     bindE (py_get recipe ''name'' (JStr ''?'')) (\<lambda>n.
     bindE (py_get recipe ''type'' (JStr ''?'')) (\<lambda>t.
     bindE (py_get recipe ''description'' (JStr ''?'')) (\<lambda>d.
       Inr (n, t, d))))"

definition format_recipes :: "json \<Rightarrow> exn + message" where
  "format_recipes recipes =
     bindE (py_get recipes ''recipes'' (JArr [])) (\<lambda>rs.
     bindE (py_slice3 rs) (\<lambda>first3.
     bindE (py_iter first3) (\<lambda>items.
     bindE (mapE recipe_view items) (\<lambda>views.
       Inr (RecipesList views)))))"

text \<open>\<^verbatim>\<open>not recipes or not recipes.get('recipes')\<close>.\<close>

definition no_recipes :: "json \<Rightarrow> exn + bool" where
  "no_recipes recipes =
     (if \<not> truthy recipes then Inr True
      else bindE (py_get recipes ''recipes'' JNull) (\<lambda>rs. Inr (\<not> truthy rs)))"

definition recipes_branch ::
  "env \<Rightarrow> user_data \<Rightarrow> outcome \<times> effect list" where
  "recipes_branch env ud =
     (case analyze_with_gemini env (last_composition ud) ''recipes'' of
        (Inl e, effs) \<Rightarrow> (Raised e, Edit GeneratingRecipes [] # effs)
      | (Inr recipes, effs) \<Rightarrow>
          (case no_recipes recipes of
             Inl e \<Rightarrow> (Raised e, Edit GeneratingRecipes [] # effs)
           | Inr True \<Rightarrow> (Returned, Edit GeneratingRecipes [] # effs @ [Edit RecipesFailed []])
           | Inr False \<Rightarrow>
               (case format_recipes recipes of
                  Inl e \<Rightarrow> (Raised e, Edit GeneratingRecipes [] # effs)
                | Inr response \<Rightarrow>
                    (Returned,
                     Edit GeneratingRecipes [] # effs @ [Edit response [''back_to_analysis'']]))))"

subsection \<open>\<^verbatim>\<open>button_callback\<close>, branch \<^verbatim>\<open>back_to_analysis\<close>\<close>

definition format_brief :: "json \<Rightarrow> exn + message" where
  "format_brief analysis =
     bindE (py_get analysis ''riskLevel'' JNull) (\<lambda>rl.
     bindE (risk_emoji_of rl) (\<lambda>emoji.
     bindE (py_get analysis ''productName'' default_product) (\<lambda>pn.
     bindE (py_get analysis ''verdict'' (JStr ''?'')) (\<lambda>vd.
       Inr (AnalysisBrief emoji pn vd)))))"

definition back_branch :: "user_data \<Rightarrow> outcome \<times> effect list" where
  "back_branch ud =
     (let analysis = (case last_analysis ud of None \<Rightarrow> JObj [] | Some a \<Rightarrow> a) in
      case format_brief analysis of
        Inl e \<Rightarrow> (Raised e, [])
      | Inr response \<Rightarrow> (Returned, [Edit response [''recipes'', ''cancel'']]))"

subsection \<open>\<^verbatim>\<open>button_callback\<close>\<close>

text \<open>The chain of \<^verbatim>\<open>if\<close>/\<^verbatim>\<open>elif\<close> on \<^verbatim>\<open>query.data\<close>, after \<^verbatim>\<open>query.answer()\<close>.  Any
  other data (the button \<^verbatim>\<open>edit\<close>) falls through all of them.\<close>

definition button_callback ::
  "env \<Rightarrow> tg_user \<Rightarrow> string \<Rightarrow> user_data \<Rightarrow> database
     \<Rightarrow> outcome \<times> effect list \<times> user_data \<times> database" where
  "button_callback env u data ud db =
     (if data = ''analyze'' then
        (case analyze_branch env u ud db of
           (out, effs, ud', db') \<Rightarrow> (out, AnswerQuery # effs, ud', db'))
      else if data = ''recipes'' then
        (case recipes_branch env ud of (out, effs) \<Rightarrow> (out, AnswerQuery # effs, ud, db))
      else if data = ''back_to_analysis'' then
        (case back_branch ud of (out, effs) \<Rightarrow> (out, AnswerQuery # effs, ud, db))
      else if data = ''cancel'' then (Returned, [AnswerQuery, Edit Cancelled []], ud, db)
      else (Returned, [AnswerQuery], ud, db))"

subsection \<open>\<^verbatim>\<open>history\<close>\<close>

text \<open>
  \<^verbatim>\<open>SELECT .. FROM analyses WHERE user_id = ? ORDER BY created_at DESC LIMIT 10\<close>:
  the rows of the user, latest first, the first ten of them.  SQL leaves the order of
  rows of equal time open; here the later insertion comes first.
\<close>

definition select_history :: "database \<Rightarrow> int \<Rightarrow> row list" where
  "select_history db u =
     take 10 (rev (sort_key created_at (filter (\<lambda>r. user_id r = u) (analyses db))))"

definition history_line :: "row \<Rightarrow> risk_emoji \<times> sqlval \<times> sqlval \<times> nat" where
  "history_line r = (risk_emoji_of_sql (risk_level r), product_name r, verdict r, created_at r)"

definition history :: "env \<Rightarrow> tg_user \<Rightarrow> database \<Rightarrow> outcome \<times> effect list" where
  "history env u db =
     (case db_fault env of
        Some e \<Rightarrow> (Raised e, [])
      | None \<Rightarrow>
          (let results = select_history db (uid u) in
           if results = [] then (Returned, [Reply HistoryEmpty []])
           else (Returned, [Reply (HistoryList (map history_line results)) []])))"

subsection \<open>\<^verbatim>\<open>main\<close>: the registered handlers\<close>

text \<open>
  The state of the running bot: one \<open>user_data\<close> per user and the table.  An update is
  given to the first registered handler that accepts it; \<^verbatim>\<open>main\<close> registers the commands
  \<^verbatim>\<open>start\<close>, \<^verbatim>\<open>help\<close> and \<^verbatim>\<open>history\<close>, the photo handler and the callback handler.  An
  update no handler accepts is dropped.
\<close>

record app =
  sessions :: "int \<Rightarrow> user_data"
  store :: database

datatype update =
    CommandUpdate tg_user string
  | PhotoUpdate tg_user
  | CallbackUpdate tg_user string

definition main :: "env \<Rightarrow> update \<Rightarrow> app \<Rightarrow> outcome \<times> effect list \<times> app" where
  "main env upd st =
     (case upd of
        CommandUpdate u name \<Rightarrow>
          if name = ''start'' then (case start u of (out, effs) \<Rightarrow> (out, effs, st))
          else if name = ''help'' then (case help_command u of (out, effs) \<Rightarrow> (out, effs, st))
          else if name = ''history'' then
            (case history env u (store st) of (out, effs) \<Rightarrow> (out, effs, st))
          else (Returned, [], st)
      | PhotoUpdate u \<Rightarrow>
          (case handle_photo env u (sessions st (uid u)) of
             (out, effs, ud') \<Rightarrow> (out, effs, st\<lparr>sessions := (sessions st)(uid u := ud')\<rparr>))
      | CallbackUpdate u data \<Rightarrow>
          (case button_callback env u data (sessions st (uid u)) (store st) of
             (out, effs, ud', db') \<Rightarrow>
               (out, effs, \<lparr>sessions = (sessions st)(uid u := ud'), store = db'\<rparr>)))"

text \<open>A run of the bot: the events in order, each with what the outside answers
  during it.  The state a handler leaves behind is the state the next event finds.\<close>

fun run :: "(env \<times> update) list \<Rightarrow> app \<Rightarrow> app" where
  "run [] st = st"
| "run ((env, upd) # es) st = run es (snd (snd (main env upd st)))"

section \<open>The extraction rule of the specification\<close>

text \<open>
  The specification words the extraction as: the first balanced top-level object
  literal of the text.  \<open>balanced_prefix d s\<close> reads \<open>s\<close> inside \<open>d\<close> open braces up to
  the brace that closes the outermost one; \<open>first_balanced_object\<close> returns the first
  literal found that way, from the left.
\<close>

fun balanced_prefix :: "nat \<Rightarrow> string \<Rightarrow> string option" where
  "balanced_prefix d [] = None"
| "balanced_prefix d (c # s) =
     (if c = CHR ''{'' then map_option (Cons c) (balanced_prefix (Suc d) s)
      else if c = CHR ''}'' then
        (if d \<le> 1 then Some [c] else map_option (Cons c) (balanced_prefix (d - 1) s))
      else map_option (Cons c) (balanced_prefix d s))"

fun first_balanced_object :: "string \<Rightarrow> string option" where
  "first_balanced_object [] = None"
| "first_balanced_object (c # s) =
     (if c = CHR ''{'' then
        (case balanced_prefix 1 s of
           Some m \<Rightarrow> Some (c # m)
         | None \<Rightarrow> first_balanced_object s)
      else first_balanced_object s)"

section \<open>Sample inputs\<close>

definition alice :: tg_user where
  "alice = \<lparr>uid = 1, uname = Some ''alice'', first_name = ''Alice''\<rparr>"

definition bob :: tg_user where
  "bob = \<lparr>uid = 2, uname = None, first_name = ''Bob''\<rparr>"

definition empty_db :: database where
  "empty_db = \<lparr>analyses = [], seq = 0\<rparr>"

definition initial_app :: app where
  "initial_app = \<lparr>sessions = (\<lambda>u. empty_user_data), store = empty_db\<rparr>"

text \<open>Answers of the two providers that carry one text.\<close>

definition ocr_answer :: "string \<Rightarrow> json" where
  "ocr_answer t =
     JObj [(''results'', JArr [JObj [(''textDetection'',
       JObj [(''pages'', JArr [JObj [(''blocks'', JArr [JObj [(''lines'',
         JArr [JObj [(''words'', JArr [JObj [(''text'', JStr t)]])]])]])]])])]])]"

definition gemini_answer :: "string \<Rightarrow> json" where
  "gemini_answer t =
     JObj [(''candidates'', JArr [JObj [(''content'',
       JObj [(''parts'', JArr [JObj [(''text'', JStr t)]])])]])]"

text \<open>Three payloads as text and as the values \<^verbatim>\<open>json.loads\<close> decodes them to: the
  analysis of the specification's scenario, an analysis with a risk level outside the
  enumeration and without a product name, and a set of recipes.\<close>

definition snack_text :: string where
  \<open>snack_text = ''{"productName": "Snack", "verdict": "ok", "riskLevel": "moderate", "highlights": ["E250"], "allergens": [], "features": [], "advice": "eat in moderation"}''\<close>

definition snack_analysis :: json where
  "snack_analysis =
     JObj [(''productName'', JStr ''Snack''), (''verdict'', JStr ''ok''),
           (''riskLevel'', JStr ''moderate''), (''highlights'', JArr [JStr ''E250'']),
           (''allergens'', JArr []), (''features'', JArr []),
           (''advice'', JStr ''eat in moderation'')]"

definition odd_text :: string where
  \<open>odd_text = ''{"verdict": "avoid", "riskLevel": "extreme"}''\<close>

definition odd_analysis :: json where
  "odd_analysis = JObj [(''verdict'', JStr ''avoid''), (''riskLevel'', JStr ''extreme'')]"

definition tea_text :: string where
  \<open>tea_text = ''{"recipes": [{"name": "Tea", "type": "beverage", "description": "hot"}]}''\<close>

definition tea_recipes :: json where
  "tea_recipes =
     JObj [(''recipes'', JArr [JObj [(''name'', JStr ''Tea''), (''type'', JStr ''beverage''),
                                     (''description'', JStr ''hot'')]])]"

definition two_objects :: string where
  \<open>two_objects = ''{"a": 1} {"b": 2}''\<close>

text \<open>The two functions of the \<^verbatim>\<open>json\<close> library on these payloads; every other text
  used below is one that \<^verbatim>\<open>json.loads\<close> rejects.\<close>

definition sample_loads :: "string \<Rightarrow> exn + json" where
  "sample_loads s =
     (if s = snack_text then Inr snack_analysis
      else if s = odd_text then Inr odd_analysis
      else if s = tea_text then Inr tea_recipes
      else Inl JSONDecodeError)"

definition sample_dumps :: "json \<Rightarrow> string" where
  "sample_dumps v =
     (if v = snack_analysis then snack_text
      else if v = odd_analysis then odd_text
      else if v = tea_recipes then tea_text
      else ''null'')"

text \<open>An event during which everything outside works: the photo reads
  \<open>label\<close>, the analysis provider answers \<open>reply\<close>, the database's clock shows \<open>t\<close>.\<close>

definition calm_env :: "string \<Rightarrow> string \<Rightarrow> nat \<Rightarrow> env" where
  "calm_env label reply t =
     \<lparr>photo_path = ''/tmp/1_0.jpg'', download_fault = None, open_fault = None,
      ocr_http = Inr (200, Inr (ocr_answer label)), remove_fault = None,
      gemini_http = Inr (200, Inr (gemini_answer reply)),
      json_loads = sample_loads, json_dumps = sample_dumps, db_fault = None, now = t\<rparr>"

definition photo_session :: user_data where
  "photo_session =
     \<lparr>last_composition = Some ''Sugar, Salt, E250'', last_photo_path = Some ''/tmp/1_0.jpg'',
      last_analysis = None\<rparr>"

definition analyzed_session :: user_data where
  "analyzed_session =
     \<lparr>last_composition = Some ''Sugar, Salt, E250'', last_photo_path = Some ''/tmp/1_0.jpg'',
      last_analysis = Some snack_analysis\<rparr>"

text \<open>Five events of two users, the writes to the table interleaved.\<close>

definition busy_app :: app where
  "busy_app = run
     [(calm_env ''Sugar, Salt, E250'' snack_text 1, PhotoUpdate alice),
      (calm_env ''Sugar, Salt, E250'' snack_text 2, CallbackUpdate alice ''analyze''),
      (calm_env ''Water'' odd_text 3, PhotoUpdate bob),
      (calm_env ''Water'' odd_text 4, CallbackUpdate bob ''analyze''),
      (calm_env ''Sugar, Salt, E250'' odd_text 5, CallbackUpdate alice ''analyze'')] initial_app"

section \<open>Unfolding the model\<close>

lemmas sample_defs =
  calm_env_def ocr_answer_def gemini_answer_def sample_loads_def sample_dumps_def
  snack_text_def snack_analysis_def odd_text_def odd_analysis_def tea_text_def tea_recipes_def
  alice_def bob_def empty_db_def initial_app_def photo_session_def analyzed_session_def
  empty_user_data_def

lemmas ocr_defs =
  ocr_recognize_def ocr_try_def ocr_text_def ocr_result_item_def ocr_block_def
  ocr_line_def ocr_word_def ocr_symbol_def bindE_def

lemmas gemini_defs =
  analyze_with_gemini_def gemini_try_def gemini_content_def extract_json_def json_pattern_def

lemmas analyze_defs =
  button_callback_def analyze_branch_def save_analysis_def format_analysis_def insert_row_def
  username_or_unknown_def py_join_def or_not_found_def emoji_of_string_def

section \<open>The session across photos and buttons\<close>

text \<open>
  C1 (as amended).  Handling a photo whose recognition succeeds stores the new text as
  \<open>last_composition\<close> and the new path as \<open>last_photo_path\<close>, and leaves \<open>last_analysis\<close>
  as it was: the stored analysis is not invalidated.  (No handler stores recipes.)
\<close>

theorem handle_photo_replaces_text_only:
  assumes "download_fault env = None"
    and "fst (ocr_recognize env (photo_path env)) = Inr (Some t)"
    and "t \<noteq> []"
  shows "snd (snd (handle_photo env u ud)) =
           ud\<lparr>last_composition := Some t, last_photo_path := Some (photo_path env)\<rparr>
         \<and> last_analysis (snd (snd (handle_photo env u ud))) = last_analysis ud"
  using assms
  by (auto simp add: handle_photo_def photo_not_recognized_def
      split: option.splits sum.splits prod.splits)

theorem handle_photo_replaces_text_only_witness:
  "download_fault (calm_env ''Water'' snack_text 3) = None
   \<and> fst (ocr_recognize (calm_env ''Water'' snack_text 3)
            (photo_path (calm_env ''Water'' snack_text 3))) = Inr (Some ''Water'')
   \<and> ''Water'' \<noteq> []
   \<and> snd (snd (handle_photo (calm_env ''Water'' snack_text 3) alice analyzed_session)) =
       analyzed_session\<lparr>last_composition := Some ''Water'',
                        last_photo_path := Some ''/tmp/1_0.jpg''\<rparr>
   \<and> last_analysis (snd (snd (handle_photo (calm_env ''Water'' snack_text 3) alice
        analyzed_session))) = Some snack_analysis"
proof -
  have a: "download_fault (calm_env ''Water'' snack_text 3) = None"
    by (simp add: calm_env_def)
  have b: "fst (ocr_recognize (calm_env ''Water'' snack_text 3)
                  (photo_path (calm_env ''Water'' snack_text 3))) = Inr (Some ''Water'')"
    by (simp add: ocr_defs calm_env_def ocr_answer_def)
  have c: "''Water'' \<noteq> []"
    by simp
  from handle_photo_replaces_text_only [OF a b c, of alice analyzed_session] a b c
  show ?thesis
    by (simp add: calm_env_def analyzed_session_def)
qed

text \<open>
  C1 as stated fails: a photo, the button \<^verbatim>\<open>analyze\<close>, a second photo.  The session then
  holds the text of the second photo together with the analysis of the first.
\<close>

theorem second_photo_keeps_first_analysis:
  "last_composition (sessions (run
      [(calm_env ''Sugar, Salt, E250'' snack_text 1, PhotoUpdate alice),
       (calm_env ''Sugar, Salt, E250'' snack_text 2, CallbackUpdate alice ''analyze''),
       (calm_env ''Water'' snack_text 3, PhotoUpdate alice)] initial_app) 1) = Some ''Water''
   \<and> last_analysis (sessions (run
      [(calm_env ''Sugar, Salt, E250'' snack_text 1, PhotoUpdate alice),
       (calm_env ''Sugar, Salt, E250'' snack_text 2, CallbackUpdate alice ''analyze''),
       (calm_env ''Water'' snack_text 3, PhotoUpdate alice)] initial_app) 1)
     = Some snack_analysis"
  by (simp add: main_def handle_photo_def preview_of_def analyze_defs ocr_defs gemini_defs
      sample_defs)

text \<open>
  C7 (as amended).  The button \<^verbatim>\<open>cancel\<close> answers the query and shows the message
  "cancelled"; the session and the table are left as they were.
\<close>

theorem cancel_keeps_session:
  "button_callback env u ''cancel'' ud db = (Returned, [AnswerQuery, Edit Cancelled []], ud, db)"
  by (simp add: button_callback_def)

text \<open>C7 as stated fails: after \<^verbatim>\<open>cancel\<close> the recognized text and the analysis are
  still in the session.\<close>

theorem cancel_leaves_text_and_analysis:
  "last_composition (fst (snd (snd (button_callback (calm_env ''Sugar, Salt, E250'' snack_text 0)
      alice ''cancel'' analyzed_session empty_db)))) = Some ''Sugar, Salt, E250''
   \<and> last_analysis (fst (snd (snd (button_callback (calm_env ''Sugar, Salt, E250'' snack_text 0)
      alice ''cancel'' analyzed_session empty_db)))) = Some snack_analysis"
  by (simp add: button_callback_def analyzed_session_def)

section \<open>Extraction of the structured payload\<close>

text \<open>The greedy run ends at the last closing brace of the text.\<close>

lemma star_lit_none: "c \<notin> set s \<Longrightarrow> match_here [AnyStar, Lit c] s = None"
  by (induction s) auto

lemma star_lit_last:
  "c \<notin> set suf \<Longrightarrow> match_here [AnyStar, Lit c] (body @ c # suf) = Some (body @ [c])"
  by (induction body) (auto simp: star_lit_none)

lemma search_skip:
  "CHR ''{'' \<notin> set pre \<Longrightarrow> re_search json_pattern (pre @ s) = re_search json_pattern s"
  by (induction pre) (auto simp: json_pattern_def)

lemma search_span:
  assumes "CHR ''{'' \<notin> set pre" and "CHR ''}'' \<notin> set suf"
  shows "re_search json_pattern (pre @ CHR ''{'' # body @ CHR ''}'' # suf)
         = Some (CHR ''{'' # body @ [CHR ''}''])"
proof -
  have "re_search json_pattern (CHR ''{'' # body @ CHR ''}'' # suf) = Some (CHR ''{'' # body @ [CHR ''}''])"
    using assms(2) by (simp add: json_pattern_def star_lit_last)
  then show ?thesis using assms(1) by (simp add: search_skip)
qed

lemma search_none:
  "(\<forall>pre body suf. s \<noteq> pre @ CHR ''{'' # body @ CHR ''}'' # suf) \<Longrightarrow> re_search json_pattern s = None"
proof (induction s)
  case Nil
  then show ?case by (simp add: json_pattern_def)
next
  case (Cons x s)
  have tail: "\<forall>pre body suf. s \<noteq> pre @ CHR ''{'' # body @ CHR ''}'' # suf"
  proof (intro allI notI)
    fix pre body suf
    assume "s = pre @ CHR ''{'' # body @ CHR ''}'' # suf"
    then have "x # s = (x # pre) @ CHR ''{'' # body @ CHR ''}'' # suf" by simp
    with Cons.prems show False by blast
  qed
  have here: "match_here json_pattern (x # s) = None"
  proof (cases "x = CHR ''{''")
    case True
    have "CHR ''}'' \<notin> set s"
    proof
      assume "CHR ''}'' \<in> set s"
      then obtain body suf where "s = body @ CHR ''}'' # suf"
        by (meson split_list)
      then have "x # s = [] @ CHR ''{'' # body @ CHR ''}'' # suf" using True by simp
      with Cons.prems show False by blast
    qed
    then show ?thesis using True by (simp add: json_pattern_def star_lit_none)
  next
    case False
    then show ?thesis by (simp add: json_pattern_def)
  qed
  show ?case using here Cons.IH [OF tail] by simp
qed

text \<open>
  C4 (as amended).  The extraction hands to the JSON parser the text from the first
  opening brace to the last closing brace of the provider's text, whatever lies between
  them, and returns what the parser returns, with no check of the fields; a text with
  no opening brace followed by a closing brace gives \<^verbatim>\<open>None\<close>; and in the gateway a
  text the parser rejects gives \<^verbatim>\<open>None\<close> as well.
\<close>

theorem extraction_takes_first_to_last_brace:
  "(\<forall>pre body suf. CHR ''{'' \<notin> set pre \<and> CHR ''}'' \<notin> set suf \<longrightarrow>
      extract_json loads (JStr (pre @ CHR ''{'' # body @ CHR ''}'' # suf))
        = loads (CHR ''{'' # body @ [CHR ''}'']))
   \<and> ((\<forall>pre body suf. s \<noteq> pre @ CHR ''{'' # body @ CHR ''}'' # suf) \<longrightarrow>
        extract_json loads (JStr s) = Inr JNull)
   \<and> (\<forall>result content. gemini_http env = Inr (200, Inr result) \<and> gemini_content result = Inr content \<longrightarrow>
        fst (analyze_with_gemini env text mode)
          = Inr (case extract_json (json_loads env) content of Inl e \<Rightarrow> JNull | Inr v \<Rightarrow> v))"
proof (intro conjI allI impI)
  fix pre body suf
  assume "CHR ''{'' \<notin> set pre \<and> CHR ''}'' \<notin> set suf"
  then show "extract_json loads (JStr (pre @ CHR ''{'' # body @ CHR ''}'' # suf)) = loads (CHR ''{'' # body @ [CHR ''}''])"
    by (simp add: extract_json_def bindE_def search_span)
next
  assume "\<forall>pre body suf. s \<noteq> pre @ CHR ''{'' # body @ CHR ''}'' # suf"
  then show "extract_json loads (JStr s) = Inr JNull"
    by (simp add: extract_json_def bindE_def search_none)
next
  fix result content
  assume "gemini_http env = Inr (200, Inr result) \<and> gemini_content result = Inr content"
  then show "fst (analyze_with_gemini env text mode) = Inr (case extract_json (json_loads env) content of Inl e \<Rightarrow> JNull | Inr v \<Rightarrow> v)"
    by (simp add: analyze_with_gemini_def gemini_try_def bindE_def Let_def split: sum.splits)
qed

theorem extraction_takes_first_to_last_brace_witness:
  \<open>extract_json sample_loads (JStr (''Here: '' @ odd_text @ '' Enjoy!'')) = Inr odd_analysis
   \<and> extract_json sample_loads (JStr ''Sorry, no data'') = Inr JNull
   \<and> fst (analyze_with_gemini (calm_env ''Sugar'' two_objects 0) (Some ''Sugar'') ''analyze'')
       = Inr JNull\<close>
proof -
  note t = extraction_takes_first_to_last_brace
    [of sample_loads "''Sorry, no data''" "calm_env ''Sugar'' two_objects 0" "Some ''Sugar''"
      "''analyze''"]
  have p: "CHR ''{'' \<notin> set ''Here: '' \<and> CHR ''}'' \<notin> set '' Enjoy!''"
    by simp
  have o: "''Here: '' @ odd_text @ '' Enjoy!''
           = ''Here: '' @ CHR ''{'' # butlast (tl odd_text) @ CHR ''}'' # '' Enjoy!''"
    by (simp add: odd_text_def)
  from t p have "extract_json sample_loads
      (JStr (''Here: '' @ CHR ''{'' # butlast (tl odd_text) @ CHR ''}'' # '' Enjoy!''))
      = sample_loads (CHR ''{'' # butlast (tl odd_text) @ [CHR ''}''])"
    by blast
  then have 1: "extract_json sample_loads (JStr (''Here: '' @ odd_text @ '' Enjoy!'')) = Inr odd_analysis"
    unfolding o [symmetric] by (simp add: sample_loads_def odd_text_def snack_text_def)
  have n: "\<forall>pre body suf. ''Sorry, no data'' \<noteq> pre @ CHR ''{'' # body @ CHR ''}'' # suf"
  proof (intro allI notI)
    fix pre body suf
    assume e: "''Sorry, no data'' = pre @ CHR ''{'' # body @ CHR ''}'' # suf"
    have "CHR ''{'' \<in> set (pre @ CHR ''{'' # body @ CHR ''}'' # suf)" by simp
    then have "CHR ''{'' \<in> set ''Sorry, no data''" unfolding e [symmetric] .
    then show False by simp
  qed
  from t n have 2: "extract_json sample_loads (JStr ''Sorry, no data'') = Inr JNull"
    by blast
  have g: "gemini_http (calm_env ''Sugar'' two_objects 0) = Inr (200, Inr (gemini_answer two_objects))
           \<and> gemini_content (gemini_answer two_objects) = Inr (JStr two_objects)"
    by (simp add: calm_env_def gemini_content_def gemini_answer_def bindE_def)
  from t g have "fst (analyze_with_gemini (calm_env ''Sugar'' two_objects 0) (Some ''Sugar'') ''analyze'')
     = Inr (case extract_json (json_loads (calm_env ''Sugar'' two_objects 0)) (JStr two_objects) of Inl e \<Rightarrow> JNull | Inr v \<Rightarrow> v)"
    by blast
  then have 3: "fst (analyze_with_gemini (calm_env ''Sugar'' two_objects 0) (Some ''Sugar'') ''analyze'') = Inr JNull"
    by (simp add: extract_json_def bindE_def json_pattern_def calm_env_def sample_loads_def
        two_objects_def snack_text_def odd_text_def tea_text_def)
  from 1 2 3 show ?thesis by simp
qed

text \<open>
  C4 as stated fails on a text with two objects: the text matched by the pattern is the
  whole text, the first balanced object literal is its first eight characters.
\<close>

theorem greedy_span_is_not_first_object:
  \<open>re_search json_pattern two_objects = Some two_objects
   \<and> first_balanced_object two_objects = Some ''{"a": 1}''\<close>
  by (simp add: two_objects_def json_pattern_def)

section \<open>The history query\<close>

text \<open>
  C9.  For every content of the table, whatever the order in which the users wrote
  it, the history query returns at most ten rows, every one of them a row of the table
  that belongs to the asking user, in descending order of creation time; and these rows
  are what the command shows.
\<close>

theorem history_bounded_own_latest_first:
  "length (select_history db u) \<le> 10
   \<and> (\<forall>r \<in> set (select_history db u). r \<in> set (analyses db) \<and> user_id r = u)
   \<and> sorted_wrt (\<lambda>a b. created_at a \<ge> created_at b) (select_history db u)
   \<and> (db_fault env = None \<longrightarrow>
        history env usr db =
          (Returned,
           [Reply (if select_history db (uid usr) = [] then HistoryEmpty
                   else HistoryList (map history_line (select_history db (uid usr)))) []]))"
proof (intro conjI ballI impI)
  show "length (select_history db u) \<le> 10" by (simp add: select_history_def)
next
  fix r assume "r \<in> set (select_history db u)"
  then have "r \<in> set (filter (\<lambda>r. user_id r = u) (analyses db))"
    unfolding select_history_def by (auto dest: in_set_takeD)
  then show "r \<in> set (analyses db)" "user_id r = u" by auto
next
  let ?xs = "sort_key created_at (filter (\<lambda>r. user_id r = u) (analyses db))"
  have "sorted (map created_at ?xs)" by (rule sorted_sort_key)
  then have "sorted_wrt (\<lambda>a b. created_at a \<le> created_at b) ?xs"
    by (simp add: sorted_wrt_map)
  then have "sorted_wrt (\<lambda>a b. created_at a \<ge> created_at b) (rev ?xs)"
    by (simp add: sorted_wrt_rev)
  then show "sorted_wrt (\<lambda>a b. created_at a \<ge> created_at b) (select_history db u)"
    unfolding select_history_def by (rule sorted_wrt_take)
next
  assume "db_fault env = None"
  then show "history env usr db =
      (Returned,
       [Reply (if select_history db (uid usr) = [] then HistoryEmpty
               else HistoryList (map history_line (select_history db (uid usr)))) []])"
    by (simp add: history_def Let_def)
qed

lemma busy_select:
  "map (\<lambda>r. (row_id r, user_id r, created_at r)) (select_history (store busy_app) 1)
   = [(3, 1, 5), (1, 1, 2)]"
  by (simp add: select_history_def busy_app_def main_def handle_photo_def preview_of_def
      analyze_defs ocr_defs gemini_defs sample_defs)

theorem history_bounded_own_latest_first_witness:
  "length (select_history (store busy_app) 1) = 2
   \<and> user_id (hd (select_history (store busy_app) 1)) = 1
   \<and> map created_at (select_history (store busy_app) 1) = [5, 2]
   \<and> sorted_wrt (\<lambda>a b. created_at a \<ge> created_at b) (select_history (store busy_app) 1)
   \<and> fst (history (calm_env ''Water'' snack_text 6) alice (store busy_app)) = Returned"
proof -
  note t = history_bounded_own_latest_first
    [of "store busy_app" 1 "calm_env ''Water'' snack_text 6" alice]
  have l: "length (select_history (store busy_app) 1) = 2"
    using busy_select [THEN arg_cong, of length] by simp
  then have "hd (select_history (store busy_app) 1) \<in> set (select_history (store busy_app) 1)"
    by (cases "select_history (store busy_app) 1") auto
  with t have u: "user_id (hd (select_history (store busy_app) 1)) = 1"
    by blast
  have c: "map created_at (select_history (store busy_app) 1) = [5, 2]"
    using busy_select [THEN arg_cong, of "map (\<lambda>x. snd (snd x))"] by (simp add: comp_def)
  have d: "db_fault (calm_env ''Water'' snack_text 6) = None"
    by (simp add: calm_env_def)
  with t have "fst (history (calm_env ''Water'' snack_text 6) alice (store busy_app)) = Returned"
    by simp
  with t l u c show ?thesis by blast
qed

section \<open>The button \<^verbatim>\<open>analyze\<close>\<close>

lemma save_analysis_row:
  assumes "save_analysis env u c (JObj kvs) db = Inr db'"
  shows "analyses db' = analyses db @ [last (analyses db')]
         \<and> Inr (risk_level (last (analyses db')))
             = sqlite_bind (case map_of kvs ''riskLevel'' of None \<Rightarrow> JStr ''?'' | Some v \<Rightarrow> v)"
  using assms
  by (auto simp add: save_analysis_def bindE_def insert_row_def Let_def
      split: option.splits sum.splits)

lemma bind_not_safe:
  assumes "Inr r = sqlite_bind (case x of None \<Rightarrow> JStr ''?'' | Some v \<Rightarrow> v)"
    and "x \<noteq> Some (JStr ''safe'')"
  shows "r \<noteq> SqlText ''safe''"
proof (cases x)
  case None
  with assms show ?thesis by auto
next
  case (Some v)
  with assms show ?thesis by (cases v) (auto split: if_splits pyfloat.splits)
qed

lemma emoji_outside:
  assumes "risk_emoji_of (case x of None \<Rightarrow> JNull | Some v \<Rightarrow> v) = Inr e"
    and "x \<notin> {Some (JStr ''safe''), Some (JStr ''moderate''), Some (JStr ''high'')}"
  shows "e = QuestionMark"
proof (cases x)
  case None
  with assms show ?thesis by auto
next
  case (Some v)
  with assms show ?thesis by (cases v) (auto simp: emoji_of_string_def split: if_splits)
qed

lemma format_analysis_outside:
  assumes "format_analysis (JObj kvs) = Inr m"
    and "map_of kvs ''riskLevel'' \<notin> {Some (JStr ''safe''), Some (JStr ''moderate''), Some (JStr ''high'')}"
  shows "\<exists>pn vd hs als fs adv. m = AnalysisReport QuestionMark pn vd hs als fs adv"
proof -
  from assms(1) obtain e where e: "risk_emoji_of (case map_of kvs ''riskLevel'' of None \<Rightarrow> JNull | Some v \<Rightarrow> v) = Inr e"
    and m: "\<exists>pn vd hs als fs adv. m = AnalysisReport e pn vd hs als fs adv"
    by (auto simp add: format_analysis_def bindE_def split: sum.splits)
  from emoji_outside [OF e assms(2)] m show ?thesis by simp
qed

text \<open>
  C3 (as amended).  When the analysis carries a risk level outside safe, moderate and
  high (or none) and the handler completes, the row appended to the table holds the
  provider's value as the column stores it, the string \<^verbatim>\<open>?\<close> when the key is absent; it is
  never \<^verbatim>\<open>safe\<close>, and the analysis shown carries the question mark.
\<close>

theorem unknown_risk_level_is_stored_as_given:
  assumes "last_composition ud = Some c" and "c \<noteq> []"
    and "fst (analyze_with_gemini env (Some c) ''analyze'') = Inr (JObj kvs)" and "kvs \<noteq> []"
    and "map_of kvs ''riskLevel'' \<notin> {Some (JStr ''safe''), Some (JStr ''moderate''), Some (JStr ''high'')}"
    and "button_callback env u ''analyze'' ud db = (Returned, effs, ud', db')"
  shows "analyses db' = analyses db @ [last (analyses db')]
     \<and> Inr (risk_level (last (analyses db')))
         = sqlite_bind (case map_of kvs ''riskLevel'' of None \<Rightarrow> JStr ''?'' | Some v \<Rightarrow> v)
     \<and> risk_level (last (analyses db')) \<noteq> SqlText ''safe''
     \<and> (\<exists>pn vd hs als fs adv.
          last effs = Edit (AnalysisReport QuestionMark pn vd hs als fs adv) [''recipes'', ''cancel''])"
proof -
  obtain effs0 where g: "analyze_with_gemini env (Some c) ''analyze'' = (Inr (JObj kvs), effs0)"
    using assms(3) by (cases "analyze_with_gemini env (Some c) ''analyze''") auto
  from assms(6) assms(1,2,4) g obtain m where
    s: "save_analysis env u c (JObj kvs) db = Inr db'"
    and f: "format_analysis (JObj kvs) = Inr m"
    and e: "effs = AnswerQuery # Edit Analyzing [] # effs0 @ [Edit m [''recipes'', ''cancel'']]"
    by (auto simp add: button_callback_def analyze_branch_def split: sum.splits)
  note r = save_analysis_row [OF s]
  have ns: "map_of kvs ''riskLevel'' \<noteq> Some (JStr ''safe'')" using assms(5) by auto
  from bind_not_safe [OF conjunct2 [OF r] ns] have "risk_level (last (analyses db')) \<noteq> SqlText ''safe''" .
  moreover from format_analysis_outside [OF f assms(5)] e
  have "\<exists>pn vd hs als fs adv. last effs = Edit (AnalysisReport QuestionMark pn vd hs als fs adv) [''recipes'', ''cancel'']"
    by auto
  ultimately show ?thesis using r by blast
qed

theorem unknown_risk_level_is_stored_as_given_witness:
  "last_composition photo_session = Some ''Sugar, Salt, E250''
   \<and> fst (analyze_with_gemini (calm_env ''Sugar, Salt, E250'' odd_text 5)
        (Some ''Sugar, Salt, E250'') ''analyze'') = Inr odd_analysis
   \<and> fst (button_callback (calm_env ''Sugar, Salt, E250'' odd_text 5) alice ''analyze''
        photo_session empty_db) = Returned
   \<and> Inr (risk_level (last (analyses (snd (snd (snd (button_callback
        (calm_env ''Sugar, Salt, E250'' odd_text 5) alice ''analyze'' photo_session empty_db)))))))
       = sqlite_bind (JStr ''extreme'')
   \<and> risk_level (last (analyses (snd (snd (snd (button_callback
        (calm_env ''Sugar, Salt, E250'' odd_text 5) alice ''analyze'' photo_session empty_db))))))
       \<noteq> SqlText ''safe''"
proof -
  let ?E = "calm_env ''Sugar, Salt, E250'' odd_text 5"
  let ?X = "button_callback ?E alice ''analyze'' photo_session empty_db"
  have a: "last_composition photo_session = Some ''Sugar, Salt, E250''"
    by (simp add: photo_session_def)
  have b: "''Sugar, Salt, E250'' \<noteq> []" by simp
  have c: "fst (analyze_with_gemini ?E (Some ''Sugar, Salt, E250'') ''analyze'')
           = Inr (JObj [(''verdict'', JStr ''avoid''), (''riskLevel'', JStr ''extreme'')])"
    by (simp add: gemini_defs bindE_def sample_defs)
  have d: "[(''verdict'', JStr ''avoid''), (''riskLevel'', JStr ''extreme'')] \<noteq> []" by simp
  have e: "map_of [(''verdict'', JStr ''avoid''), (''riskLevel'', JStr ''extreme'')] ''riskLevel''
           \<notin> {Some (JStr ''safe''), Some (JStr ''moderate''), Some (JStr ''high'')}"
    by simp
  have r: "fst ?X = Returned"
    by (simp add: analyze_defs gemini_defs bindE_def sample_defs)
  then have f: "?X = (Returned, fst (snd ?X), fst (snd (snd ?X)), snd (snd (snd ?X)))"
    by (metis prod.collapse)
  from unknown_risk_level_is_stored_as_given [OF a b c d e f] a c r
  show ?thesis by (simp add: odd_analysis_def)
qed

text \<open>C3 as stated fails: the risk level \<^verbatim>\<open>extreme\<close> is stored as it came, not as
  \<^verbatim>\<open>unknown\<close>.\<close>

theorem extreme_risk_level_is_stored:
  "map risk_level (analyses (snd (snd (snd (button_callback
      (calm_env ''Sugar, Salt, E250'' odd_text 5) alice ''analyze'' photo_session empty_db)))))
   = [SqlText ''extreme'']"
  by (simp add: analyze_defs gemini_defs bindE_def sample_defs)

text \<open>
  C5 (as amended).  When the gateway returns an analysis and the storage engine fails,
  the exception leaves the handler after the progress message: the analysis is not
  shown, and the session and the table stay as they were.
\<close>

theorem persistence_failure_aborts_analyze:
  assumes "last_composition ud = Some c" and "c \<noteq> []"
    and "fst (analyze_with_gemini env (Some c) ''analyze'') = Inr a" and "truthy a"
    and "db_fault env = Some e"
  shows "button_callback env u ''analyze'' ud db =
           (Raised e, [AnswerQuery, Edit Analyzing [], GeminiPost (AnalyzePrompt (Some c))], ud, db)"
proof -
  have t: "gemini_try env = Inr a"
    using assms(3,4) by (auto simp add: analyze_with_gemini_def Let_def split: sum.splits)
  then have g: "analyze_with_gemini env (Some c) ''analyze'' = (Inr a, [GeminiPost (AnalyzePrompt (Some c))])"
    by (simp add: analyze_with_gemini_def)
  show ?thesis
    using assms(1,2,4,5) g
    by (simp add: button_callback_def analyze_branch_def save_analysis_def)
qed

theorem persistence_failure_aborts_analyze_witness:
  "last_composition photo_session = Some ''Sugar, Salt, E250''
   \<and> fst (analyze_with_gemini ((calm_env ''Sugar, Salt, E250'' snack_text 5)\<lparr>db_fault := Some OperationalError\<rparr>)
        (Some ''Sugar, Salt, E250'') ''analyze'') = Inr snack_analysis
   \<and> truthy snack_analysis
   \<and> button_callback ((calm_env ''Sugar, Salt, E250'' snack_text 5)\<lparr>db_fault := Some OperationalError\<rparr>)
        alice ''analyze'' photo_session empty_db
       = (Raised OperationalError,
          [AnswerQuery, Edit Analyzing [], GeminiPost (AnalyzePrompt (Some ''Sugar, Salt, E250''))],
          photo_session, empty_db)"
proof -
  let ?E = "(calm_env ''Sugar, Salt, E250'' snack_text 5)\<lparr>db_fault := Some OperationalError\<rparr>"
  have a: "last_composition photo_session = Some ''Sugar, Salt, E250''"
    by (simp add: photo_session_def)
  have b: "''Sugar, Salt, E250'' \<noteq> []" by simp
  have c: "fst (analyze_with_gemini ?E (Some ''Sugar, Salt, E250'') ''analyze'') = Inr snack_analysis"
    by (simp add: gemini_defs bindE_def sample_defs)
  have d: "truthy snack_analysis" by (simp add: snack_analysis_def)
  have e: "db_fault ?E = Some OperationalError" by (simp add: calm_env_def)
  from persistence_failure_aborts_analyze [OF a b c d e, of alice empty_db] a c d
  show ?thesis by simp
qed

text \<open>C5 as stated fails: with a failing storage engine the last message the user sees
  is the progress message; the analysis is never shown.\<close>

theorem persistence_failure_hides_analysis:
  "button_callback ((calm_env ''Sugar, Salt, E250'' snack_text 5)\<lparr>db_fault := Some OperationalError\<rparr>)
     alice ''analyze'' photo_session empty_db
   = (Raised OperationalError,
      [AnswerQuery, Edit Analyzing [], GeminiPost (AnalyzePrompt (Some ''Sugar, Salt, E250''))],
      photo_session, empty_db)"
  by (simp add: analyze_defs gemini_defs bindE_def sample_defs)

section \<open>The buttons \<^verbatim>\<open>back_to_analysis\<close> and \<^verbatim>\<open>recipes\<close>\<close>

text \<open>
  C8 (as amended).  The button \<^verbatim>\<open>back_to_analysis\<close> shows the short view (risk mark,
  product name, verdict) of the analysis stored in the session; when none is stored it
  shows the same view built from the defaults (question mark, the default product name,
  \<^verbatim>\<open>?\<close>), not an error.
\<close>

theorem back_shows_stored_or_placeholder:
  "(last_analysis ud = None \<longrightarrow>
      button_callback env u ''back_to_analysis'' ud db =
        (Returned,
         [AnswerQuery,
          Edit (AnalysisBrief QuestionMark default_product (JStr ''?'')) [''recipes'', ''cancel'']],
         ud, db))
   \<and> (\<forall>kvs e.
        last_analysis ud = Some (JObj kvs) \<and>
        risk_emoji_of (case map_of kvs ''riskLevel'' of None \<Rightarrow> JNull | Some v \<Rightarrow> v) = Inr e \<longrightarrow>
        button_callback env u ''back_to_analysis'' ud db =
          (Returned,
           [AnswerQuery,
            Edit (AnalysisBrief e
                    (case map_of kvs ''productName'' of None \<Rightarrow> default_product | Some v \<Rightarrow> v)
                    (case map_of kvs ''verdict'' of None \<Rightarrow> JStr ''?'' | Some v \<Rightarrow> v))
              [''recipes'', ''cancel'']],
           ud, db))"
  by (simp add: button_callback_def back_branch_def format_brief_def bindE_def)

theorem back_shows_stored_or_placeholder_witness:
  "button_callback (calm_env ''Water'' snack_text 0) alice ''back_to_analysis'' empty_user_data empty_db
     = (Returned,
        [AnswerQuery,
         Edit (AnalysisBrief QuestionMark default_product (JStr ''?'')) [''recipes'', ''cancel'']],
        empty_user_data, empty_db)
   \<and> button_callback (calm_env ''Water'' snack_text 0) alice ''back_to_analysis'' analyzed_session empty_db
     = (Returned,
        [AnswerQuery,
         Edit (AnalysisBrief WarningSign (JStr ''Snack'') (JStr ''ok'')) [''recipes'', ''cancel'']],
        analyzed_session, empty_db)"
proof -
  have a: "last_analysis empty_user_data = None"
    by (simp add: empty_user_data_def)
  have b: "last_analysis analyzed_session = Some (JObj
             [(''productName'', JStr ''Snack''), (''verdict'', JStr ''ok''),
              (''riskLevel'', JStr ''moderate''), (''highlights'', JArr [JStr ''E250'']),
              (''allergens'', JArr []), (''features'', JArr []),
              (''advice'', JStr ''eat in moderation'')])
           \<and> risk_emoji_of (case map_of
             [(''productName'', JStr ''Snack''), (''verdict'', JStr ''ok''),
              (''riskLevel'', JStr ''moderate''), (''highlights'', JArr [JStr ''E250'']),
              (''allergens'', JArr []), (''features'', JArr []),
              (''advice'', JStr ''eat in moderation'')] ''riskLevel''
               of None \<Rightarrow> JNull | Some v \<Rightarrow> v) = Inr WarningSign"
    by (simp add: analyzed_session_def snack_analysis_def emoji_of_string_def)
  from back_shows_stored_or_placeholder
    [of empty_user_data "calm_env ''Water'' snack_text 0" alice empty_db] a
  have 1: "button_callback (calm_env ''Water'' snack_text 0) alice ''back_to_analysis''
             empty_user_data empty_db
           = (Returned,
              [AnswerQuery,
               Edit (AnalysisBrief QuestionMark default_product (JStr ''?'')) [''recipes'', ''cancel'']],
              empty_user_data, empty_db)"
    by blast
  from back_shows_stored_or_placeholder
    [of analyzed_session "calm_env ''Water'' snack_text 0" alice empty_db,
     THEN conjunct2, rule_format, OF b]
  have 2: "button_callback (calm_env ''Water'' snack_text 0) alice ''back_to_analysis''
             analyzed_session empty_db
           = (Returned,
              [AnswerQuery,
               Edit (AnalysisBrief WarningSign (JStr ''Snack'') (JStr ''ok'')) [''recipes'', ''cancel'']],
              analyzed_session, empty_db)"
    by simp
  from 1 2 show ?thesis by simp
qed

text \<open>C8 as stated fails: with no analysis in the session the handler shows a
  placeholder analysis.\<close>

theorem back_without_analysis_shows_placeholder:
  "fst (snd (button_callback (calm_env ''Water'' snack_text 0) alice ''back_to_analysis''
     empty_user_data empty_db))
   = [AnswerQuery,
      Edit (AnalysisBrief QuestionMark (JStr ''Produkt'') (JStr ''?'')) [''recipes'', ''cancel'']]"
  by (simp add: button_callback_def back_branch_def format_brief_def bindE_def
      empty_user_data_def default_product_def)

text \<open>
  C2, evaluated on the code.  With no recognized text in the session the button
  \<^verbatim>\<open>recipes\<close> calls the analysis provider (the prompt is built from \<^verbatim>\<open>None\<close>) and
  shows what it answers, where the button \<^verbatim>\<open>analyze\<close> shows "text not found" and
  calls nothing; the branch \<^verbatim>\<open>recipes\<close> calls the provider whatever the session holds.
\<close>

theorem recipes_without_text_calls_gateway:
  "button_callback (calm_env ''Sugar'' tea_text 0) alice ''recipes'' empty_user_data empty_db
     = (Returned,
        [AnswerQuery, Edit GeneratingRecipes [], GeminiPost (RecipesPrompt None),
         Edit (RecipesList [(JStr ''Tea'', JStr ''beverage'', JStr ''hot'')]) [''back_to_analysis'']],
        empty_user_data, empty_db)
   \<and> button_callback (calm_env ''Sugar'' tea_text 0) alice ''analyze'' empty_user_data empty_db
     = (Returned, [AnswerQuery, Edit TextNotFound []], empty_user_data, empty_db)
   \<and> GeminiPost (RecipesPrompt (last_composition ud))
       \<in> set (fst (snd (button_callback env u ''recipes'' ud db)))"
proof (intro conjI)
  show "button_callback (calm_env ''Sugar'' tea_text 0) alice ''recipes'' empty_user_data empty_db
     = (Returned,
        [AnswerQuery, Edit GeneratingRecipes [], GeminiPost (RecipesPrompt None),
         Edit (RecipesList [(JStr ''Tea'', JStr ''beverage'', JStr ''hot'')]) [''back_to_analysis'']],
        empty_user_data, empty_db)"
    by (simp add: button_callback_def recipes_branch_def no_recipes_def format_recipes_def
        recipe_view_def gemini_defs bindE_def sample_defs)
  show "button_callback (calm_env ''Sugar'' tea_text 0) alice ''analyze'' empty_user_data empty_db
     = (Returned, [AnswerQuery, Edit TextNotFound []], empty_user_data, empty_db)"
    by (simp add: button_callback_def analyze_branch_def empty_user_data_def)
  show "GeminiPost (RecipesPrompt (last_composition ud))
       \<in> set (fst (snd (button_callback env u ''recipes'' ud db)))"
    by (auto simp add: button_callback_def recipes_branch_def analyze_with_gemini_def Let_def
        split: sum.splits prod.splits bool.splits)
qed

section \<open>The command \<^verbatim>\<open>clear\<close>\<close>

text \<open>
  C6, evaluated on the code.  The help text lists the command \<^verbatim>\<open>clear\<close>, but no
  handler is registered for it: the update is dropped and the rows of the user stay in
  the table.
\<close>

theorem clear_command_is_listed_but_dropped:
  "''clear'' \<in> set help_commands
   \<and> main env (CommandUpdate u ''clear'') st = (Returned, [], st)
   \<and> map user_id (analyses (store (snd (snd
        (main (calm_env ''Water'' snack_text 6) (CommandUpdate alice ''clear'') busy_app)))))
       = [1, 2, 1]"
proof -
  have "map user_id (analyses (store busy_app)) = [1, 2, 1]"
    by (simp add: busy_app_def main_def handle_photo_def preview_of_def analyze_defs ocr_defs
        gemini_defs sample_defs)
  then show ?thesis by (simp add: help_commands_def main_def)
qed

section \<open>The gateways never raise\<close>

lemma ocr_recognize_result:
  "fst (ocr_recognize env p) =
     Inr (case open_fault env of
            Some e \<Rightarrow> None
          | None \<Rightarrow>
              (case ocr_http env of
                 Inl e \<Rightarrow> None
               | Inr (st, body) \<Rightarrow>
                   (case body of
                      Inl e \<Rightarrow> None
                    | Inr result \<Rightarrow>
                        if st = 200 then (case ocr_text result of Inl e \<Rightarrow> None | Inr t \<Rightarrow> Some t)
                        else None)))"
  by (simp add: ocr_recognize_def ocr_try_def bindE_def split: option.splits sum.splits prod.splits)

lemma analyze_with_gemini_result:
  "fst (analyze_with_gemini env text mode) =
     Inr (case gemini_http env of
            Inl e \<Rightarrow> JNull
          | Inr (st, body) \<Rightarrow>
              if st = 200 then
                (case body of
                   Inl e \<Rightarrow> JNull
                 | Inr result \<Rightarrow>
                     (case gemini_content result of
                        Inl e \<Rightarrow> JNull
                      | Inr content \<Rightarrow>
                          (case json_match content of
                             Inl e \<Rightarrow> JNull
                           | Inr None \<Rightarrow> JNull
                           | Inr (Some g) \<Rightarrow>
                               (case json_loads env g of Inl e \<Rightarrow> JNull | Inr v \<Rightarrow> v))))
              else JNull)"
  by (simp add: analyze_with_gemini_def gemini_try_def extract_json_def bindE_def Let_def
      split: option.splits sum.splits prod.splits)

lemma photo_caller_checks:
  assumes "download_fault env = None"
    and "fst (ocr_recognize env (photo_path env)) = Inr None
         \<or> fst (ocr_recognize env (photo_path env)) = Inr (Some [])"
  shows "Reply RecognitionFailed [] \<in> set (fst (snd (handle_photo env u ud)))
         \<and> snd (snd (handle_photo env u ud)) = ud"
  using assms
  by (cases "ocr_recognize env (photo_path env)")
     (auto simp add: handle_photo_def photo_not_recognized_def split: option.splits)

lemma analyze_caller_checks:
  assumes "last_composition ud = Some c" and "c \<noteq> []"
    and "fst (analyze_with_gemini env (Some c) ''analyze'') = Inr a" and "\<not> truthy a"
  shows "button_callback env u ''analyze'' ud db =
           (Returned,
            AnswerQuery # Edit Analyzing [] # snd (analyze_with_gemini env (Some c) ''analyze'')
              @ [Edit AnalysisError []],
            ud, db)"
  using assms
  by (cases "analyze_with_gemini env (Some c) ''analyze''")
     (simp add: button_callback_def analyze_branch_def)

lemma recipes_caller_checks:
  assumes "fst (analyze_with_gemini env (last_composition ud) ''recipes'') = Inr a"
    and "\<not> truthy a"
  shows "button_callback env u ''recipes'' ud db =
           (Returned,
            AnswerQuery # Edit GeneratingRecipes []
              # snd (analyze_with_gemini env (last_composition ud) ''recipes'')
              @ [Edit RecipesFailed []],
            ud, db)"
  using assms
  by (cases "analyze_with_gemini env (last_composition ud) ''recipes''")
     (simp add: button_callback_def recipes_branch_def no_recipes_def)

text \<open>
  C10 (as amended).  Both gateways always return: \<^verbatim>\<open>ocr_recognize\<close> gives \<^verbatim>\<open>None\<close> on
  every exception and on a status other than 200, and the concatenated text on status
  200, which is the empty string when the answer holds no text;
  \<^verbatim>\<open>analyze_with_gemini\<close> gives \<^verbatim>\<open>None\<close> on every exception, on a status other than
  200, on a text without a match and on a text the parser rejects.  Each of the three
  callers shows its error message when the result is falsy, and changes nothing.
\<close>

theorem gateways_return_falsy_instead_of_raising:
  "fst (ocr_recognize env p) =
     Inr (case open_fault env of
            Some e \<Rightarrow> None
          | None \<Rightarrow>
              (case ocr_http env of
                 Inl e \<Rightarrow> None
               | Inr (st, body) \<Rightarrow>
                   (case body of
                      Inl e \<Rightarrow> None
                    | Inr result \<Rightarrow>
                        if st = 200 then (case ocr_text result of Inl e \<Rightarrow> None | Inr t \<Rightarrow> Some t)
                        else None)))
   \<and> ocr_text (JObj []) = Inr []
   \<and> fst (analyze_with_gemini env text mode) =
     Inr (case gemini_http env of
            Inl e \<Rightarrow> JNull
          | Inr (st, body) \<Rightarrow>
              if st = 200 then
                (case body of
                   Inl e \<Rightarrow> JNull
                 | Inr result \<Rightarrow>
                     (case gemini_content result of
                        Inl e \<Rightarrow> JNull
                      | Inr content \<Rightarrow>
                          (case json_match content of
                             Inl e \<Rightarrow> JNull
                           | Inr None \<Rightarrow> JNull
                           | Inr (Some g) \<Rightarrow>
                               (case json_loads env g of Inl e \<Rightarrow> JNull | Inr v \<Rightarrow> v))))
              else JNull)
   \<and> (download_fault env = None \<and>
        (fst (ocr_recognize env (photo_path env)) = Inr None
         \<or> fst (ocr_recognize env (photo_path env)) = Inr (Some [])) \<longrightarrow>
        Reply RecognitionFailed [] \<in> set (fst (snd (handle_photo env u ud)))
        \<and> snd (snd (handle_photo env u ud)) = ud)
   \<and> (\<forall>c a. last_composition ud = Some c \<and> c \<noteq> []
          \<and> fst (analyze_with_gemini env (Some c) ''analyze'') = Inr a \<and> \<not> truthy a \<longrightarrow>
        button_callback env u ''analyze'' ud db =
          (Returned,
           AnswerQuery # Edit Analyzing [] # snd (analyze_with_gemini env (Some c) ''analyze'')
             @ [Edit AnalysisError []],
           ud, db))
   \<and> (\<forall>a. fst (analyze_with_gemini env (last_composition ud) ''recipes'') = Inr a
          \<and> \<not> truthy a \<longrightarrow>
        button_callback env u ''recipes'' ud db =
          (Returned,
           AnswerQuery # Edit GeneratingRecipes []
             # snd (analyze_with_gemini env (last_composition ud) ''recipes'')
             @ [Edit RecipesFailed []],
           ud, db))"
proof (intro conjI allI impI)
  show "ocr_text (JObj []) = Inr []"
    by (simp add: ocr_text_def bindE_def)
qed (use ocr_recognize_result analyze_with_gemini_result photo_caller_checks
      analyze_caller_checks recipes_caller_checks in blast)+

theorem gateways_return_falsy_instead_of_raising_witness:
  "fst (snd (handle_photo ((calm_env ''Water'' snack_text 0)\<lparr>ocr_http := Inr (500, Inr (JObj []))\<rparr>)
      alice analyzed_session))
     = [SendTyping, Reply Recognizing [], OcrPost ''/tmp/1_0.jpg'', Reply RecognitionFailed [],
        RemoveFile ''/tmp/1_0.jpg'']
   \<and> snd (snd (handle_photo ((calm_env ''Water'' snack_text 0)\<lparr>ocr_http := Inr (500, Inr (JObj []))\<rparr>)
      alice analyzed_session)) = analyzed_session
   \<and> button_callback ((calm_env ''Water'' snack_text 0)\<lparr>gemini_http := Inl ClientError\<rparr>)
        alice ''analyze'' photo_session empty_db
     = (Returned,
        [AnswerQuery, Edit Analyzing [], GeminiPost (AnalyzePrompt (Some ''Sugar, Salt, E250'')),
         LogError ClientError, Edit AnalysisError []],
        photo_session, empty_db)
   \<and> button_callback ((calm_env ''Water'' snack_text 0)\<lparr>gemini_http := Inr (503, Inl JSONDecodeError)\<rparr>)
        alice ''recipes'' photo_session empty_db
     = (Returned,
        [AnswerQuery, Edit GeneratingRecipes [],
         GeminiPost (RecipesPrompt (Some ''Sugar, Salt, E250'')), Edit RecipesFailed []],
        photo_session, empty_db)"
proof -
  let ?E1 = "(calm_env ''Water'' snack_text 0)\<lparr>ocr_http := Inr (500, Inr (JObj []))\<rparr>"
  let ?E2 = "(calm_env ''Water'' snack_text 0)\<lparr>gemini_http := Inl ClientError\<rparr>"
  let ?E3 = "(calm_env ''Water'' snack_text 0)\<lparr>gemini_http := Inr (503, Inl JSONDecodeError)\<rparr>"
  have o: "ocr_recognize ?E1 (photo_path ?E1) = (Inr None, [OcrPost ''/tmp/1_0.jpg''])"
    by (simp add: ocr_recognize_def ocr_try_def bindE_def calm_env_def)
  then have a: "download_fault ?E1 = None \<and>
      (fst (ocr_recognize ?E1 (photo_path ?E1)) = Inr None
       \<or> fst (ocr_recognize ?E1 (photo_path ?E1)) = Inr (Some []))"
    by (simp add: calm_env_def)
  from gateways_return_falsy_instead_of_raising [of ?E1 _ _ _ alice analyzed_session] a
  have p1: "snd (snd (handle_photo ?E1 alice analyzed_session)) = analyzed_session"
    by blast
  have p1b: "fst (snd (handle_photo ?E1 alice analyzed_session))
     = [SendTyping, Reply Recognizing [], OcrPost ''/tmp/1_0.jpg'', Reply RecognitionFailed [],
        RemoveFile ''/tmp/1_0.jpg'']"
    using o by (simp add: handle_photo_def photo_not_recognized_def calm_env_def)
  have g2: "analyze_with_gemini ?E2 (Some ''Sugar, Salt, E250'') ''analyze''
            = (Inr JNull, [GeminiPost (AnalyzePrompt (Some ''Sugar, Salt, E250'')), LogError ClientError])"
    by (simp add: analyze_with_gemini_def gemini_try_def calm_env_def)
  then have b: "last_composition photo_session = Some ''Sugar, Salt, E250'' \<and> ''Sugar, Salt, E250'' \<noteq> []
      \<and> fst (analyze_with_gemini ?E2 (Some ''Sugar, Salt, E250'') ''analyze'') = Inr JNull
      \<and> \<not> truthy JNull"
    by (simp add: photo_session_def)
  from gateways_return_falsy_instead_of_raising [of ?E2 _ _ _ alice photo_session empty_db] b
  have "button_callback ?E2 alice ''analyze'' photo_session empty_db =
          (Returned,
           AnswerQuery # Edit Analyzing []
             # snd (analyze_with_gemini ?E2 (Some ''Sugar, Salt, E250'') ''analyze'')
             @ [Edit AnalysisError []],
           photo_session, empty_db)"
    by blast
  then have p2: "button_callback ?E2 alice ''analyze'' photo_session empty_db
     = (Returned,
        [AnswerQuery, Edit Analyzing [], GeminiPost (AnalyzePrompt (Some ''Sugar, Salt, E250'')),
         LogError ClientError, Edit AnalysisError []],
        photo_session, empty_db)"
    by (simp add: g2)
  have g3: "analyze_with_gemini ?E3 (last_composition photo_session) ''recipes''
            = (Inr JNull, [GeminiPost (RecipesPrompt (Some ''Sugar, Salt, E250''))])"
    by (simp add: analyze_with_gemini_def gemini_try_def calm_env_def photo_session_def)
  then have c: "fst (analyze_with_gemini ?E3 (last_composition photo_session) ''recipes'') = Inr JNull
      \<and> \<not> truthy JNull"
    by simp
  from gateways_return_falsy_instead_of_raising [of ?E3 _ _ _ alice photo_session empty_db] c
  have "button_callback ?E3 alice ''recipes'' photo_session empty_db =
          (Returned,
           AnswerQuery # Edit GeneratingRecipes []
             # snd (analyze_with_gemini ?E3 (last_composition photo_session) ''recipes'')
             @ [Edit RecipesFailed []],
           photo_session, empty_db)"
    by blast
  then have p3: "button_callback ?E3 alice ''recipes'' photo_session empty_db
     = (Returned,
        [AnswerQuery, Edit GeneratingRecipes [],
         GeminiPost (RecipesPrompt (Some ''Sugar, Salt, E250'')), Edit RecipesFailed []],
        photo_session, empty_db)"
    by (simp add: g3)
  from p1 p1b p2 p3 show ?thesis by blast
qed

text \<open>C10 as stated fails for the recognition gateway: on status 200 with an answer
  from which no text can be extracted it returns the empty string, not \<^verbatim>\<open>None\<close>.\<close>

theorem empty_answer_gives_empty_string:
  "fst (ocr_recognize ((calm_env [] snack_text 0)\<lparr>ocr_http := Inr (200, Inr (JObj []))\<rparr>)
     ''/tmp/1_0.jpg'') = Inr (Some [])"
  by (simp add: ocr_recognize_def ocr_try_def ocr_text_def bindE_def calm_env_def)

end
